theory Spec2Isabelle
  imports Main "HOL-Library.Word"
begin

section \<open>Values of the user service\<close>

text \<open>
  The Go server (package server) keeps users in MySQL and guards the point operations
  on one user with a distributed lock, taken from Redis (Redsync) or from etcd.
  The model below follows server.go function by function. The calls to the logger
  are left out: they produce no value that a handler reads. Requests are served one
  at a time; what other replicas do at the same moment is not part of the model.
\<close>

type_synonym int32 = "32 word"
type_synonym int64 = "64 word"

text \<open>
  Go errors. \<open>ErrNoRows\<close> is the sentinel sql.ErrNoRows, which GetUser compares with
  \<open>==\<close>; \<open>ErrorNew\<close> is an error made from a message (fmt.Errorf without a verb, or any
  error of a library); \<open>ErrorWrap p e\<close> is \<open>fmt.Errorf(p + "%w", e)\<close>.
\<close>

datatype error = ErrNoRows | ErrorNew string | ErrorWrap string error

fun Error_text :: "error \<Rightarrow> string" where
  "Error_text ErrNoRows = ''sql: no rows in result set''"
| "Error_text (ErrorNew m) = m"
| "Error_text (ErrorWrap p e) = p @ Error_text e"

fun Unwrap :: "error \<Rightarrow> error option" where
  "Unwrap (ErrorWrap p e) = Some e"
| "Unwrap e = None"

text \<open>
  A context is the background context or a context derived from a parent with a
  timeout (a time.Duration, in nanoseconds). \<open>timeout_of\<close> is the shortest timeout
  on the chain, if there is one.
\<close>

datatype "context" = Background | WithTimeout "context" int

definition Second :: int where
  "Second = 1000000000"

fun timeout_of :: "context \<Rightarrow> int option" where
  "timeout_of Background = None"
| "timeout_of (WithTimeout parent d) =
     (case timeout_of parent of None \<Rightarrow> Some d | Some d' \<Rightarrow> Some (min d d'))"

text \<open>The messages of proto/service.proto; a message-typed field is a pointer.\<close>

record User =
  Id :: int32
  Name :: string
  Email :: string
  Age :: int32
  CreatedAt :: string
  UpdatedAt :: string

record GetUserRequest =
  get_Id :: int32

record GetUserResponse =
  get_User :: "User option"
  get_Success :: bool
  get_Message :: string

record ListUsersRequest =
  list_Page :: int32
  list_Limit :: int32

record ListUsersResponse =
  list_Users :: "User list"
  list_Total :: int32
  list_Success :: bool
  list_Message :: string

record CreateUserRequest =
  create_Name :: string
  create_Email :: string
  create_Age :: int32

record CreateUserResponse =
  create_User :: "User option"
  create_Success :: bool
  create_Message :: string

record UpdateUserRequest =
  update_Id :: int32
  update_Name :: string
  update_Email :: string
  update_Age :: int32

record UpdateUserResponse =
  update_User :: "User option"
  update_Success :: bool
  update_Message :: string

record DeleteUserRequest =
  delete_Id :: int32

record DeleteUserResponse =
  delete_Success :: bool
  delete_Message :: string

section \<open>The collaborators: Redis, etcd, MySQL and the clock\<close>

text \<open>
  Every call that leaves the process is an event of the trace, in the order of the
  calls. A session of etcd is named by a number. The two requests for a lock carry
  their answer (nil when the lock was granted).
\<close>

datatype arg = ArgString string | ArgInt32 int32

datatype event =
    RsLockContext "context" string "error option"
  | RsUnlock string
  | RdbPing "context"
  | EtcdNewSession "context"
  | EtcdLock nat string "context" "error option"
  | EtcdUnlock nat string "context"
  | EtcdSessionClose nat
  | EtcdGet "context" string
  | DbExec "context" string "arg list"
  | DbQuery "context" string "arg list"
  | DbQueryRow "context" string "arg list"
  | DbRowsClose
  | TimeNow

datatype service = Redis | Etcd | MySQL | Clock

fun service_of :: "event \<Rightarrow> service" where
  "service_of (RsLockContext c k r) = Redis"
| "service_of (RsUnlock k) = Redis"
| "service_of (RdbPing c) = Redis"
| "service_of (EtcdNewSession c) = Etcd"
| "service_of (EtcdLock s k c r) = Etcd"
| "service_of (EtcdUnlock s k c) = Etcd"
| "service_of (EtcdSessionClose s) = Etcd"
| "service_of (EtcdGet c k) = Etcd"
| "service_of (DbExec c q as) = MySQL"
| "service_of (DbQuery c q as) = MySQL"
| "service_of (DbQueryRow c q as) = MySQL"
| "service_of DbRowsClose = MySQL"
| "service_of TimeNow = Clock"

definition seen :: "service \<Rightarrow> event list \<Rightarrow> event list" where
  "seen sv h = filter (\<lambda>e. service_of e = sv) h"

text \<open>
  What database/sql hands back. A sql.Result answers LastInsertId and RowsAffected
  with a value or an error; a *sql.Row is what Scan will give, the scanned user or
  an error (sql.ErrNoRows when nothing matched); a *sql.Rows holds the rows that Next
  delivers before it returns false, each with the outcome of its Scan, and the error
  that ended the iteration, if any, which rows.Err() would report.
\<close>

record Result =
  LastInsertId :: "error + int64"
  RowsAffected :: "error + int64"

type_synonym Row = "error + User"
record Rows =
  rows_delivered :: "(error + User) list"
  rows_Err :: "error option"

text \<open>
  The environment answers each call from the calls its service has seen so far.
  The results of Mutex.Unlock, Session.Close and Rows.Close are dropped by the
  code, so they have no answer here.
\<close>

record env =
  rs_LockContext :: "event list \<Rightarrow> context \<Rightarrow> string \<Rightarrow> error option"
  rdb_Ping :: "event list \<Rightarrow> context \<Rightarrow> error option"
  etcd_NewSession :: "event list \<Rightarrow> context \<Rightarrow> error + nat"
  etcd_Lock :: "event list \<Rightarrow> nat \<Rightarrow> string \<Rightarrow> context \<Rightarrow> error option"
  etcd_Get :: "event list \<Rightarrow> context \<Rightarrow> string \<Rightarrow> error option"
  db_ExecContext :: "event list \<Rightarrow> context \<Rightarrow> string \<Rightarrow> arg list \<Rightarrow> error + Result"
  db_QueryContext :: "event list \<Rightarrow> context \<Rightarrow> string \<Rightarrow> arg list \<Rightarrow> error + Rows"
  db_QueryRowContext :: "event list \<Rightarrow> context \<Rightarrow> string \<Rightarrow> arg list \<Rightarrow> Row"
  time_Now :: "event list \<Rightarrow> string"

text \<open>A computation takes the trace so far and returns its value and the longer trace.\<close>

type_synonym 'a prog = "event list \<Rightarrow> 'a \<times> event list"

definition LockContext :: "env \<Rightarrow> context \<Rightarrow> string \<Rightarrow> error option prog" where
  "LockContext E ctx key h =
     (let r = rs_LockContext E (seen Redis h) ctx key in (r, h @ [RsLockContext ctx key r]))"

definition Ping :: "env \<Rightarrow> context \<Rightarrow> error option prog" where
  "Ping E ctx h = (rdb_Ping E (seen Redis h) ctx, h @ [RdbPing ctx])"

definition NewSession :: "env \<Rightarrow> context \<Rightarrow> (error + nat) prog" where
  "NewSession E ctx h = (etcd_NewSession E (seen Etcd h) ctx, h @ [EtcdNewSession ctx])"

definition Lock :: "env \<Rightarrow> nat \<Rightarrow> string \<Rightarrow> context \<Rightarrow> error option prog" where
  "Lock E sess key ctx h =
     (let r = etcd_Lock E (seen Etcd h) sess key ctx in (r, h @ [EtcdLock sess key ctx r]))"

definition Get :: "env \<Rightarrow> context \<Rightarrow> string \<Rightarrow> error option prog" where
  "Get E ctx key h = (etcd_Get E (seen Etcd h) ctx key, h @ [EtcdGet ctx key])"

definition ExecContext :: "env \<Rightarrow> context \<Rightarrow> string \<Rightarrow> arg list \<Rightarrow> (error + Result) prog" where
  "ExecContext E ctx q as h = (db_ExecContext E (seen MySQL h) ctx q as, h @ [DbExec ctx q as])"

definition QueryContext :: "env \<Rightarrow> context \<Rightarrow> string \<Rightarrow> arg list \<Rightarrow> (error + Rows) prog" where
  "QueryContext E ctx q as h = (db_QueryContext E (seen MySQL h) ctx q as, h @ [DbQuery ctx q as])"

definition QueryRowContext :: "env \<Rightarrow> context \<Rightarrow> string \<Rightarrow> arg list \<Rightarrow> Row prog" where
  "QueryRowContext E ctx q as h =
     (db_QueryRowContext E (seen MySQL h) ctx q as, h @ [DbQueryRow ctx q as])"

definition Now :: "env \<Rightarrow> string prog" where
  "Now E h = (time_Now E (seen Clock h), h @ [TimeNow])"

section \<open>The lock drivers\<close>

text \<open>The verb \<open>%d\<close> of fmt.Sprintf on an int32: the signed value in decimal.\<close>

fun decimal :: "nat \<Rightarrow> string" where
  "decimal n = (if n < 10 then [''0123456789'' ! n] else decimal (n div 10) @ [''0123456789'' ! (n mod 10)])"

declare decimal.simps [simp del]

definition Sprintf_d :: "string \<Rightarrow> int32 \<Rightarrow> string" where
  "Sprintf_d prefix v =
     prefix @ (if sint v < 0 then CHR ''-'' # decimal (nat (- sint v)) else decimal (nat (sint v)))"

text \<open>
  An UnlockFunc is a closure without arguments or results: it only acts on the
  collaborators. LockUser returns it, or nil with an error.
\<close>

type_synonym UnlockFunc = "event list \<Rightarrow> event list"

record DistributedLocker =
  LockUser :: "env \<Rightarrow> context \<Rightarrow> int32 \<Rightarrow> (error + UnlockFunc) prog"
  HealthCheck :: "env \<Rightarrow> context \<Rightarrow> error option prog"

text \<open>
  The Redis driver. \<open>rdb\<close> is the client that HealthCheck pings, nil or the address
  it was opened on; LockUser goes through \<open>rsync\<close> without a check, so the model
  takes the locker that NewRedsyncLocker builds, where \<open>rsync\<close> is set.
\<close>

record RedsyncLocker =
  rsync :: string
  rdb :: "string option"

definition RedsyncLocker_LockUser ::
  "RedsyncLocker \<Rightarrow> env \<Rightarrow> context \<Rightarrow> int32 \<Rightarrow> (error + UnlockFunc) prog" where
  "RedsyncLocker_LockUser l E ctx userID h =
     (let lockKey = Sprintf_d ''user-lock-'' userID in
      case LockContext E ctx lockKey h of
        (Some err, h1) \<Rightarrow> (Inl err, h1)
      | (None, h1) \<Rightarrow> (Inr (\<lambda>h'. h' @ [RsUnlock lockKey]), h1))"

definition RedsyncLocker_HealthCheck ::
  "RedsyncLocker option \<Rightarrow> env \<Rightarrow> context \<Rightarrow> error option prog" where
  "RedsyncLocker_HealthCheck l E ctx h =
     (case l of
        None \<Rightarrow> (Some (ErrorNew ''redis client not initialized''), h)
      | Some l' \<Rightarrow>
          (case rdb l' of
             None \<Rightarrow> (Some (ErrorNew ''redis client not initialized''), h)
           | Some c \<Rightarrow> Ping E ctx h))"

text \<open>The etcd driver; \<open>client\<close> is nil or the client on its endpoints.\<close>

record EtcdLocker =
  client :: "string list option"

definition EtcdLocker_LockUser ::
  "EtcdLocker \<Rightarrow> env \<Rightarrow> context \<Rightarrow> int32 \<Rightarrow> (error + UnlockFunc) prog" where
  "EtcdLocker_LockUser l E ctx userID h =
     (let lockKey = Sprintf_d ''/user-lock-'' userID in
      case NewSession E ctx h of
        (Inl err, h1) \<Rightarrow> (Inl err, h1)
      | (Inr sess, h1) \<Rightarrow>
          (case Lock E sess lockKey ctx h1 of
             (Some err, h2) \<Rightarrow> (Inl err, h2 @ [EtcdSessionClose sess])
           | (None, h2) \<Rightarrow>
               (Inr (\<lambda>h'. h' @ [EtcdUnlock sess lockKey ctx, EtcdSessionClose sess]), h2)))"

definition EtcdLocker_HealthCheck ::
  "EtcdLocker option \<Rightarrow> env \<Rightarrow> context \<Rightarrow> error option prog" where
  "EtcdLocker_HealthCheck l E ctx h =
     (case l of
        None \<Rightarrow> (Some (ErrorNew ''etcd client not initialized''), h)
      | Some l' \<Rightarrow>
          (case client l' of
             None \<Rightarrow> (Some (ErrorNew ''etcd client not initialized''), h)
           | Some c \<Rightarrow> Get E (WithTimeout ctx (2 * Second)) ''healthcheck-key'' h))"

text \<open>The two drivers as values of the interface.\<close>

definition Redsync_iface :: "RedsyncLocker \<Rightarrow> DistributedLocker" where
  "Redsync_iface l =
     \<lparr>LockUser = RedsyncLocker_LockUser l, HealthCheck = RedsyncLocker_HealthCheck (Some l)\<rparr>"

definition Etcd_iface :: "EtcdLocker \<Rightarrow> DistributedLocker" where
  "Etcd_iface l =
     \<lparr>LockUser = EtcdLocker_LockUser l, HealthCheck = EtcdLocker_HealthCheck (Some l)\<rparr>"

section \<open>The server\<close>

text \<open>
  The handle \<open>db\<close> of the server is a *sql.DB, named by its data source; its three
  methods of DBInterface are the calls to MySQL above.
\<close>

datatype DBInterface = sql_DB string

record UserServer =
  db :: DBInterface
  locker :: DistributedLocker

definition NewUserServerWithDB :: "DBInterface \<Rightarrow> DistributedLocker \<Rightarrow> UserServer" where
  "NewUserServerWithDB d l = \<lparr>db = d, locker = l\<rparr>"

text \<open>
  \<open>defer f()\<close>: the rest of the function runs, its return values are fixed, and then
  \<open>f\<close> runs, whichever return statement was taken.
\<close>

definition defer_call :: "UnlockFunc \<Rightarrow> 'a prog \<Rightarrow> 'a prog" where
  "defer_call f body h = (case body h of (r, h') \<Rightarrow> (r, f h'))"

definition GetUser ::
  "UserServer \<Rightarrow> env \<Rightarrow> context \<Rightarrow> GetUserRequest \<Rightarrow> (GetUserResponse option \<times> error option) prog" where
  "GetUser s E ctx req h =
     (case LockUser (locker s) E ctx (get_Id req) h of
        (Inl err, h1) \<Rightarrow> ((None, Some (ErrorWrap ''failed to acquire lock: '' err)), h1)
      | (Inr unlock, h1) \<Rightarrow>
          defer_call unlock (\<lambda>h1.
            case QueryRowContext E ctx
                   ''SELECT id, name, email, age, created_at, updated_at FROM users WHERE id = ?''
                   [ArgInt32 (get_Id req)] h1 of
              (Inl err, h2) \<Rightarrow>
                if err = ErrNoRows
                then ((Some \<lparr>get_User = None, get_Success = False,
                               get_Message = ''User not found''\<rparr>, None), h2)
                else ((None, Some err), h2)
            | (Inr user, h2) \<Rightarrow>
                ((Some \<lparr>get_User = Some user, get_Success = True,
                         get_Message = ''User found successfully''\<rparr>, None), h2)) h1)"

text \<open>
  The loop of ListUsers over the rows that the cursor delivers: the first Scan that
  fails ends it. The handler does not call rows.Err() after the loop.
\<close>

fun ListUsers_scan :: "(error + User) list \<Rightarrow> User list \<Rightarrow> error + User list" where
  "ListUsers_scan [] users = Inr users"
| "ListUsers_scan (r # rows) users =
     (case r of Inl err \<Rightarrow> Inl err | Inr user \<Rightarrow> ListUsers_scan rows (users @ [user]))"

definition ListUsers ::
  "UserServer \<Rightarrow> env \<Rightarrow> context \<Rightarrow> ListUsersRequest \<Rightarrow> (ListUsersResponse option \<times> error option) prog" where
  "ListUsers s E ctx req h =
     (case QueryContext E ctx
             ''SELECT id, name, email, age, created_at, updated_at FROM users'' [] h of
        (Inl err, h1) \<Rightarrow> ((None, Some err), h1)
      | (Inr rows, h1) \<Rightarrow>
          defer_call (\<lambda>h'. h' @ [DbRowsClose]) (\<lambda>h1.
            case ListUsers_scan (rows_delivered rows) [] of
              Inl err \<Rightarrow> ((None, Some err), h1)
            | Inr users \<Rightarrow>
                ((Some \<lparr>list_Users = users, list_Total = word_of_nat (length users),
                         list_Success = True,
                         list_Message = ''Users retrieved successfully''\<rparr>, None), h1)) h1)"

definition CreateUser ::
  "UserServer \<Rightarrow> env \<Rightarrow> context \<Rightarrow> CreateUserRequest \<Rightarrow> (CreateUserResponse option \<times> error option) prog" where
  "CreateUser s E ctx req h =
     (case Now E h of (now, h1) \<Rightarrow>
      (case ExecContext E ctx
             ''INSERT INTO users (name, email, age, created_at, updated_at) VALUES (?, ?, ?, ?, ?)''
             [ArgString (create_Name req), ArgString (create_Email req), ArgInt32 (create_Age req),
              ArgString now, ArgString now] h1 of
        (Inl err, h2) \<Rightarrow> ((None, Some err), h2)
      | (Inr res, h2) \<Rightarrow>
          (case LastInsertId res of
             Inl err \<Rightarrow> ((None, Some err), h2)
           | Inr insert_id \<Rightarrow>
               ((Some \<lparr>create_User =
                         Some \<lparr>Id = ucast insert_id, Name = create_Name req, Email = create_Email req,
                               Age = create_Age req, CreatedAt = now, UpdatedAt = now\<rparr>,
                        create_Success = True,
                        create_Message = ''User created successfully''\<rparr>, None), h2))))"

definition UpdateUser ::
  "UserServer \<Rightarrow> env \<Rightarrow> context \<Rightarrow> UpdateUserRequest \<Rightarrow> (UpdateUserResponse option \<times> error option) prog" where
  "UpdateUser s E ctx req h =
     (case LockUser (locker s) E ctx (update_Id req) h of
        (Inl err, h1) \<Rightarrow> ((None, Some (ErrorWrap ''failed to acquire lock: '' err)), h1)
      | (Inr unlock, h1) \<Rightarrow>
          defer_call unlock (\<lambda>h1.
            case Now E h1 of (now, h2) \<Rightarrow>
            (case ExecContext E ctx
                   ''UPDATE users SET name=?, email=?, age=?, updated_at=? WHERE id=?''
                   [ArgString (update_Name req), ArgString (update_Email req),
                    ArgInt32 (update_Age req), ArgString now, ArgInt32 (update_Id req)] h2 of
              (Inl err, h3) \<Rightarrow> ((None, Some err), h3)
            | (Inr res, h3) \<Rightarrow>
                (case RowsAffected res of
                   Inl err \<Rightarrow> ((None, Some err), h3)
                 | Inr num \<Rightarrow>
                     if num = 0
                     then ((Some \<lparr>update_User = None, update_Success = False,
                                    update_Message = ''User not found''\<rparr>, None), h3)
                     else
                       (case QueryRowContext E ctx
                               ''SELECT id, name, email, age, created_at, updated_at FROM users WHERE id = ?''
                               [ArgInt32 (update_Id req)] h3 of
                          (Inl err, h4) \<Rightarrow> ((None, Some err), h4)
                        | (Inr user, h4) \<Rightarrow>
                            ((Some \<lparr>update_User = Some user, update_Success = True,
                                     update_Message = ''User updated successfully''\<rparr>, None),
                             h4))))) h1)"

definition DeleteUser ::
  "UserServer \<Rightarrow> env \<Rightarrow> context \<Rightarrow> DeleteUserRequest \<Rightarrow> (DeleteUserResponse option \<times> error option) prog" where
  "DeleteUser s E ctx req h =
     (case LockUser (locker s) E ctx (delete_Id req) h of
        (Inl err, h1) \<Rightarrow> ((None, Some (ErrorWrap ''failed to acquire lock: '' err)), h1)
      | (Inr unlock, h1) \<Rightarrow>
          defer_call unlock (\<lambda>h1.
            case ExecContext E ctx ''DELETE FROM users WHERE id=?'' [ArgInt32 (delete_Id req)] h1 of
              (Inl err, h2) \<Rightarrow> ((None, Some err), h2)
            | (Inr res, h2) \<Rightarrow>
                (case RowsAffected res of
                   Inl err \<Rightarrow> ((None, Some err), h2)
                 | Inr num \<Rightarrow>
                     if num = 0
                     then ((Some \<lparr>delete_Success = False,
                                    delete_Message = ''User not found''\<rparr>, None), h2)
                     else ((Some \<lparr>delete_Success = True,
                                    delete_Message = ''User deleted successfully''\<rparr>, None),
                           h2))) h1)"





section \<open>Notions for the properties\<close>

text \<open>The five SQL statements that the handlers send, under a name each.\<close>

abbreviation select_user_sql :: string where
  "select_user_sql \<equiv> ''SELECT id, name, email, age, created_at, updated_at FROM users WHERE id = ?''"

abbreviation list_users_sql :: string where
  "list_users_sql \<equiv> ''SELECT id, name, email, age, created_at, updated_at FROM users''"

abbreviation insert_user_sql :: string where
  "insert_user_sql \<equiv>
     ''INSERT INTO users (name, email, age, created_at, updated_at) VALUES (?, ?, ?, ?, ?)''"

abbreviation update_user_sql :: string where
  "update_user_sql \<equiv> ''UPDATE users SET name=?, email=?, age=?, updated_at=? WHERE id=?''"

abbreviation delete_user_sql :: string where
  "delete_user_sql \<equiv> ''DELETE FROM users WHERE id=?''"

text \<open>A piece of trace made of calls to MySQL and readings of the clock only.\<close>

definition storage_only :: "event list \<Rightarrow> bool" where
  "storage_only evs = list_all (\<lambda>e. service_of e = MySQL \<or> service_of e = Clock) evs"

text \<open>The number of unlock calls that the lock services have received.\<close>

fun is_release :: "event \<Rightarrow> bool" where
  "is_release (RsUnlock key) = True"
| "is_release (EtcdUnlock sess key ctx) = True"
| "is_release e = False"

definition releases :: "event list \<Rightarrow> nat" where
  "releases h = length (filter is_release h)"




section \<open>Example values\<close>

text \<open>
  An environment whose services give the same answers at every call: \<open>lock\<close> for
  Redis and for the requests on an etcd session, \<open>sess\<close> for a new etcd session,
  \<open>exec\<close>, \<open>row\<close> and \<open>rows\<close> for the three calls to MySQL.
\<close>

definition steady_env ::
  "error option \<Rightarrow> error + nat \<Rightarrow> error + Result \<Rightarrow> Row \<Rightarrow> error + Rows \<Rightarrow> env" where
  "steady_env lock sess exec row rows =
     \<lparr>rs_LockContext = (\<lambda>h ctx key. lock),
      rdb_Ping = (\<lambda>h ctx. lock),
      etcd_NewSession = (\<lambda>h ctx. sess),
      etcd_Lock = (\<lambda>h s key ctx. lock),
      etcd_Get = (\<lambda>h ctx key. lock),
      db_ExecContext = (\<lambda>h ctx q as. exec),
      db_QueryContext = (\<lambda>h ctx q as. rows),
      db_QueryRowContext = (\<lambda>h ctx q as. row),
      time_Now = (\<lambda>h. ''2024-05-01T10:00:00Z'')\<rparr>"

definition ann :: User where
  "ann = \<lparr>Id = 1, Name = ''Ann'', Email = ''ann@example.com'', Age = 31,
          CreatedAt = ''2024-04-01T09:00:00Z'', UpdatedAt = ''2024-05-01T10:00:00Z''\<rparr>"

definition bob :: User where
  "bob = \<lparr>Id = 2, Name = ''Bob'', Email = ''bob@example.com'', Age = 25,
          CreatedAt = ''2024-04-02T09:00:00Z'', UpdatedAt = ''2024-04-02T09:00:00Z''\<rparr>"

definition redis_locker :: RedsyncLocker where
  "redis_locker = \<lparr>rsync = ''localhost:6379'', rdb = Some ''localhost:6379''\<rparr>"

definition etcd_locker :: EtcdLocker where
  "etcd_locker = \<lparr>client = Some [''localhost:2379'']\<rparr>"

definition redis_server :: UserServer where
  "redis_server = NewUserServerWithDB (sql_DB ''user:pw@tcp(localhost:3306)/app'') (Redsync_iface redis_locker)"

definition etcd_server :: UserServer where
  "etcd_server = NewUserServerWithDB (sql_DB ''user:pw@tcp(localhost:3306)/app'') (Etcd_iface etcd_locker)"

definition timed_out :: error where
  "timed_out = ErrorNew ''context deadline exceeded''"

definition one_row :: Result where
  "one_row = \<lparr>LastInsertId = Inr 1, RowsAffected = Inr 1\<rparr>"

definition no_row :: Result where
  "no_row = \<lparr>LastInsertId = Inr 0, RowsAffected = Inr 0\<rparr>"

definition env_up :: env where
  "env_up = steady_env None (Inr 7) (Inr one_row) (Inr ann) (Inr \<lparr>rows_delivered = [Inr ann, Inr bob], rows_Err = None\<rparr>)"

definition env_locks_down :: env where
  "env_locks_down =
     steady_env (Some timed_out) (Inr 7) (Inr one_row) (Inr ann) (Inr \<lparr>rows_delivered = [Inr ann, Inr bob], rows_Err = None\<rparr>)"

definition env_no_user :: env where
  "env_no_user = steady_env None (Inr 7) (Inr no_row) (Inl ErrNoRows) (Inr \<lparr>rows_delivered = [], rows_Err = None\<rparr>)"

definition env_reread_fails :: env where
  "env_reread_fails =
     steady_env None (Inr 7) (Inr one_row) (Inl (ErrorNew ''invalid connection''))
       (Inr \<lparr>rows_delivered = [], rows_Err = None\<rparr>)"


text \<open>
  A table with ann and bob whose cursor breaks after the first row: Next delivers
  ann, then returns false, and rows.Err() holds the error of the connection.
\<close>

definition env_cursor_cut :: env where
  "env_cursor_cut =
     steady_env None (Inr 7) (Inr one_row) (Inr ann)
       (Inr \<lparr>rows_delivered = [Inr ann], rows_Err = Some (ErrorNew ''invalid connection'')\<rparr>)"

definition ann_update :: UpdateUserRequest where
  "ann_update = \<lparr>update_Id = 1, update_Name = ''Ann'', update_Email = ''ann@example.com'',
                 update_Age = 31\<rparr>"

section \<open>Facts about traces\<close>

lemma seen_Nil [simp]: "seen sv [] = []"
  by (simp add: seen_def)

lemma seen_Cons [simp]:
  "seen sv (e # h) = (if service_of e = sv then e # seen sv h else seen sv h)"
  by (simp add: seen_def)

lemma seen_append [simp]: "seen sv (h @ h') = seen sv h @ seen sv h'"
  by (simp add: seen_def)

lemmas call_defs = LockContext_def Ping_def NewSession_def Lock_def Get_def
  ExecContext_def QueryContext_def QueryRowContext_def Now_def defer_call_def Let_def

lemma Sprintf_d_1: "Sprintf_d p 1 = p @ ''1''"
  by (simp add: Sprintf_d_def decimal.simps)

lemma storage_tail:
  "evs \<noteq> [] \<Longrightarrow> storage_only evs \<Longrightarrow>
   \<exists>evs'. evs' \<noteq> [] \<and> storage_only evs' \<and> f (h1 @ evs) = f (h1 @ evs')"
  by blast

lemma GetUser_locked:
  assumes "LockUser (locker s) E ctx (get_Id g) h = (Inr unlock, h1)"
  shows "\<exists>evs. evs \<noteq> [] \<and> storage_only evs \<and> snd (GetUser s E ctx g h) = unlock (h1 @ evs)"
  using assms
  by (simp add: GetUser_def call_defs split: sum.splits,
      intro conjI impI allI storage_tail [where f = unlock and ?h1.0 = h1])
    (simp_all add: storage_only_def)

lemma UpdateUser_locked:
  assumes "LockUser (locker s) E ctx (update_Id u) h = (Inr unlock, h1)"
  shows "\<exists>evs. evs \<noteq> [] \<and> storage_only evs \<and> snd (UpdateUser s E ctx u h) = unlock (h1 @ evs)"
  using assms
  by (simp add: UpdateUser_def call_defs split: sum.splits,
      intro conjI impI allI storage_tail [where f = unlock and ?h1.0 = h1])
    (simp_all add: storage_only_def)

lemma DeleteUser_locked:
  assumes "LockUser (locker s) E ctx (delete_Id d) h = (Inr unlock, h1)"
  shows "\<exists>evs. evs \<noteq> [] \<and> storage_only evs \<and> snd (DeleteUser s E ctx d h) = unlock (h1 @ evs)"
  using assms
  by (simp add: DeleteUser_def call_defs split: sum.splits,
      intro conjI impI allI storage_tail [where f = unlock and ?h1.0 = h1])
    (simp_all add: storage_only_def)

lemma releases_Nil [simp]: "releases [] = 0"
  by (simp add: releases_def)

lemma releases_Cons [simp]:
  "releases (e # h) = (if is_release e then Suc (releases h) else releases h)"
  by (simp add: releases_def)

lemma releases_append [simp]: "releases (h @ h') = releases h + releases h'"
  by (simp add: releases_def)

lemma releases_storage: "storage_only evs \<Longrightarrow> releases evs = 0"
  by (induction evs) (auto simp: storage_only_def elim: is_release.elims)

lemma driver_release:
  assumes "locker s = Redsync_iface rl \<or> locker s = Etcd_iface el"
    and "LockUser (locker s) E ctx uid h = (Inr unlock, h1)"
  shows "releases h1 = releases h \<and> (\<forall>h'. releases (unlock h') = Suc (releases h'))"
  using assms
  by (auto simp: Redsync_iface_def Etcd_iface_def RedsyncLocker_LockUser_def
      EtcdLocker_LockUser_def call_defs split: option.splits sum.splits)

lemma redis_lock_up:
  "LockUser (locker redis_server) env_up Background 1 [] =
     (Inr (\<lambda>h'. h' @ [RsUnlock ''user-lock-1'']), [RsLockContext Background ''user-lock-1'' None])"
  by (simp add: redis_server_def NewUserServerWithDB_def Redsync_iface_def
      RedsyncLocker_LockUser_def call_defs env_up_def steady_env_def Sprintf_d_1)

lemma etcd_lock_down:
  "LockUser (locker etcd_server) env_locks_down Background 1 [] =
     (Inl timed_out, [EtcdNewSession Background, EtcdLock 7 ''/user-lock-1'' Background (Some timed_out),
                      EtcdSessionClose 7])"
  by (simp add: etcd_server_def NewUserServerWithDB_def Etcd_iface_def
      EtcdLocker_LockUser_def call_defs env_locks_down_def steady_env_def Sprintf_d_1)

section \<open>Release of the lock\<close>

text \<open>
  Claim C1. When LockUser has succeeded for the identifier of a GetUser, UpdateUser
  or DeleteUser request, the handler runs the returned unlock function exactly once,
  as its last action, whatever return statement is taken: the trace it leaves is
  the unlock function applied to the trace after the acquisition followed by calls
  to the store and the clock only. With the Redis or the etcd driver, the handler
  adds exactly one unlock call to the trace.
\<close>

theorem unlock_once:
  assumes "LockUser (locker s) E ctx uid h = (Inr unlock, h1)"
    and "get_Id g = uid" and "update_Id u = uid" and "delete_Id d = uid"
  shows "(\<exists>evs. storage_only evs \<and> snd (GetUser s E ctx g h) = unlock (h1 @ evs))
       \<and> (\<exists>evs. storage_only evs \<and> snd (UpdateUser s E ctx u h) = unlock (h1 @ evs))
       \<and> (\<exists>evs. storage_only evs \<and> snd (DeleteUser s E ctx d h) = unlock (h1 @ evs))
       \<and> (locker s = Redsync_iface rl \<or> locker s = Etcd_iface el \<longrightarrow>
            releases (snd (GetUser s E ctx g h)) = Suc (releases h) \<and>
            releases (snd (UpdateUser s E ctx u h)) = Suc (releases h) \<and>
            releases (snd (DeleteUser s E ctx d h)) = Suc (releases h))"
proof -
  from assms have l: "LockUser (locker s) E ctx (get_Id g) h = (Inr unlock, h1)"
    "LockUser (locker s) E ctx (update_Id u) h = (Inr unlock, h1)"
    "LockUser (locker s) E ctx (delete_Id d) h = (Inr unlock, h1)"
    by simp_all
  from GetUser_locked [OF l(1)] obtain ge where
    ge: "storage_only ge" "snd (GetUser s E ctx g h) = unlock (h1 @ ge)" by blast
  from UpdateUser_locked [OF l(2)] obtain ue where
    ue: "storage_only ue" "snd (UpdateUser s E ctx u h) = unlock (h1 @ ue)" by blast
  from DeleteUser_locked [OF l(3)] obtain de where
    de: "storage_only de" "snd (DeleteUser s E ctx d h) = unlock (h1 @ de)" by blast
  have "releases (snd (GetUser s E ctx g h)) = Suc (releases h) \<and>
        releases (snd (UpdateUser s E ctx u h)) = Suc (releases h) \<and>
        releases (snd (DeleteUser s E ctx d h)) = Suc (releases h)"
    if "locker s = Redsync_iface rl \<or> locker s = Etcd_iface el"
    using driver_release [OF that assms(1)] ge ue de
    by (simp add: releases_storage)
  with ge ue de show ?thesis by blast
qed

theorem unlock_once_witness:
  "LockUser (locker redis_server) env_up Background 1 [] =
     (Inr (\<lambda>h'. h' @ [RsUnlock ''user-lock-1'']), [RsLockContext Background ''user-lock-1'' None])
   \<and> (\<exists>evs. storage_only evs \<and>
         snd (GetUser redis_server env_up Background \<lparr>get_Id = 1\<rparr> []) =
           ([RsLockContext Background ''user-lock-1'' None] @ evs) @ [RsUnlock ''user-lock-1''])
   \<and> releases (snd (UpdateUser redis_server env_up Background ann_update [])) = 1
   \<and> snd (DeleteUser redis_server env_up Background \<lparr>delete_Id = 1\<rparr> []) =
       [RsLockContext Background ''user-lock-1'' None, DbExec Background delete_user_sql [ArgInt32 1],
        RsUnlock ''user-lock-1'']"
proof -
  have t: "snd (DeleteUser redis_server env_up Background \<lparr>delete_Id = 1\<rparr> []) =
       [RsLockContext Background ''user-lock-1'' None, DbExec Background delete_user_sql [ArgInt32 1],
        RsUnlock ''user-lock-1'']"
    by (simp add: DeleteUser_def redis_lock_up,
        simp add: call_defs env_up_def steady_env_def one_row_def)
  have d: "locker redis_server = Redsync_iface redis_locker"
    by (simp add: redis_server_def NewUserServerWithDB_def)
  note c = unlock_once [OF redis_lock_up, of "\<lparr>get_Id = 1\<rparr>" ann_update "\<lparr>delete_Id = 1\<rparr>"
    redis_locker etcd_locker]
  from c have "\<exists>evs. storage_only evs \<and>
         snd (GetUser redis_server env_up Background \<lparr>get_Id = 1\<rparr> []) =
           ([RsLockContext Background ''user-lock-1'' None] @ evs) @ [RsUnlock ''user-lock-1'']"
    by (simp add: ann_update_def)
  moreover from c d have "releases (snd (UpdateUser redis_server env_up Background ann_update [])) = 1"
    by (simp add: ann_update_def)
  ultimately show ?thesis using redis_lock_up t by blast
qed

lemma redis_lock_down:
  "LockUser (locker redis_server) env_locks_down Background 1 [] =
     (Inl timed_out, [RsLockContext Background ''user-lock-1'' (Some timed_out)])"
  by (simp add: redis_server_def NewUserServerWithDB_def Redsync_iface_def
      RedsyncLocker_LockUser_def call_defs env_locks_down_def steady_env_def Sprintf_d_1)

lemma redis_lock_no_user:
  "LockUser (locker redis_server) env_no_user Background 1 [] =
     (Inr (\<lambda>h'. h' @ [RsUnlock ''user-lock-1'']), [RsLockContext Background ''user-lock-1'' None])"
  by (simp add: redis_server_def NewUserServerWithDB_def Redsync_iface_def
      RedsyncLocker_LockUser_def call_defs env_no_user_def steady_env_def Sprintf_d_1)

lemma redis_lock_reread_fails:
  "LockUser (locker redis_server) env_reread_fails Background 1 [] =
     (Inr (\<lambda>h'. h' @ [RsUnlock ''user-lock-1'']), [RsLockContext Background ''user-lock-1'' None])"
  by (simp add: redis_server_def NewUserServerWithDB_def Redsync_iface_def
      RedsyncLocker_LockUser_def call_defs env_reread_fails_def steady_env_def Sprintf_d_1)

section \<open>The lock comes first\<close>

text \<open>
  Claim C2. GetUser, UpdateUser and DeleteUser call LockUser on the identifier of the
  request before anything else. When it fails, the handler returns no response and an
  error, and the trace is the one LockUser left: no call to the store was made. When it
  succeeds, the calls to the store come after the acquisition.
\<close>

theorem lock_before_storage:
  assumes "LockUser (locker s) E ctx uid h = (r, h1)"
    and "get_Id g = uid" and "update_Id u = uid" and "delete_Id d = uid"
  shows "case r of
           Inl cause \<Rightarrow>
             (fst (fst (GetUser s E ctx g h)) = None \<and> snd (fst (GetUser s E ctx g h)) \<noteq> None \<and>
              snd (GetUser s E ctx g h) = h1) \<and>
             (fst (fst (UpdateUser s E ctx u h)) = None \<and> snd (fst (UpdateUser s E ctx u h)) \<noteq> None \<and>
              snd (UpdateUser s E ctx u h) = h1) \<and>
             (fst (fst (DeleteUser s E ctx d h)) = None \<and> snd (fst (DeleteUser s E ctx d h)) \<noteq> None \<and>
              snd (DeleteUser s E ctx d h) = h1)
         | Inr unlock \<Rightarrow>
             (\<exists>evs. evs \<noteq> [] \<and> storage_only evs \<and> snd (GetUser s E ctx g h) = unlock (h1 @ evs)) \<and>
             (\<exists>evs. evs \<noteq> [] \<and> storage_only evs \<and> snd (UpdateUser s E ctx u h) = unlock (h1 @ evs)) \<and>
             (\<exists>evs. evs \<noteq> [] \<and> storage_only evs \<and> snd (DeleteUser s E ctx d h) = unlock (h1 @ evs))"
proof (cases r)
  case (Inl cause)
  with assms show ?thesis
    by (simp add: GetUser_def UpdateUser_def DeleteUser_def)
next
  case (Inr unlock)
  with assms have "LockUser (locker s) E ctx (get_Id g) h = (Inr unlock, h1)"
    and "LockUser (locker s) E ctx (update_Id u) h = (Inr unlock, h1)"
    and "LockUser (locker s) E ctx (delete_Id d) h = (Inr unlock, h1)"
    by simp_all
  from GetUser_locked [OF this(1)] UpdateUser_locked [OF this(2)] DeleteUser_locked [OF this(3)]
  show ?thesis using Inr by simp
qed

theorem lock_before_storage_witness:
  "LockUser (locker redis_server) env_locks_down Background 1 [] =
     (Inl timed_out, [RsLockContext Background ''user-lock-1'' (Some timed_out)])
   \<and> fst (fst (GetUser redis_server env_locks_down Background \<lparr>get_Id = 1\<rparr> [])) = None
   \<and> snd (fst (GetUser redis_server env_locks_down Background \<lparr>get_Id = 1\<rparr> [])) \<noteq> None
   \<and> snd (GetUser redis_server env_locks_down Background \<lparr>get_Id = 1\<rparr> []) =
       [RsLockContext Background ''user-lock-1'' (Some timed_out)]
   \<and> snd (UpdateUser redis_server env_locks_down Background ann_update []) =
       [RsLockContext Background ''user-lock-1'' (Some timed_out)]
   \<and> snd (DeleteUser redis_server env_locks_down Background \<lparr>delete_Id = 1\<rparr> []) =
       [RsLockContext Background ''user-lock-1'' (Some timed_out)]"
  using redis_lock_down
    lock_before_storage [OF redis_lock_down, of "\<lparr>get_Id = 1\<rparr>" ann_update "\<lparr>delete_Id = 1\<rparr>"]
  by (simp add: ann_update_def)

section \<open>Not found and storage errors\<close>

text \<open>
  Claim C3. Under a lock that was granted, when the UPDATE or DELETE statement runs
  without error and reports zero rows affected, UpdateUser and DeleteUser return the
  response with Success false and the message "User not found" and a nil error; when
  the statement fails, or the count of rows cannot be read, they return a nil response
  and the error. The two results differ.
\<close>

theorem zero_rows_is_not_found:
  assumes "LockUser (locker s) E ctx uid h = (Inr unlock, h1)"
    and "update_Id u = uid" and "delete_Id d = uid"
    and "upd = db_ExecContext E (seen MySQL h1) ctx update_user_sql
                 [ArgString (update_Name u), ArgString (update_Email u), ArgInt32 (update_Age u),
                  ArgString (time_Now E (seen Clock h1)), ArgInt32 uid]"
    and "del = db_ExecContext E (seen MySQL h1) ctx delete_user_sql [ArgInt32 uid]"
  shows "(case upd of
            Inl err \<Rightarrow> fst (UpdateUser s E ctx u h) = (None, Some err)
          | Inr res \<Rightarrow>
              (case RowsAffected res of
                 Inl err \<Rightarrow> fst (UpdateUser s E ctx u h) = (None, Some err)
               | Inr num \<Rightarrow>
                   num = 0 \<longrightarrow>
                   fst (UpdateUser s E ctx u h) =
                     (Some \<lparr>update_User = None, update_Success = False,
                            update_Message = ''User not found''\<rparr>, None)))
       \<and> (case del of
            Inl err \<Rightarrow> fst (DeleteUser s E ctx d h) = (None, Some err)
          | Inr res \<Rightarrow>
              (case RowsAffected res of
                 Inl err \<Rightarrow> fst (DeleteUser s E ctx d h) = (None, Some err)
               | Inr num \<Rightarrow>
                   num = 0 \<longrightarrow>
                   fst (DeleteUser s E ctx d h) =
                     (Some \<lparr>delete_Success = False, delete_Message = ''User not found''\<rparr>, None)))"
  using assms by (simp add: UpdateUser_def DeleteUser_def call_defs split: sum.splits)

theorem zero_rows_is_not_found_witness:
  "LockUser (locker redis_server) env_no_user Background 1 [] =
     (Inr (\<lambda>h'. h' @ [RsUnlock ''user-lock-1'']), [RsLockContext Background ''user-lock-1'' None])
   \<and> fst (UpdateUser redis_server env_no_user Background ann_update []) =
       (Some \<lparr>update_User = None, update_Success = False, update_Message = ''User not found''\<rparr>, None)
   \<and> fst (DeleteUser redis_server env_no_user Background \<lparr>delete_Id = 1\<rparr> []) =
       (Some \<lparr>delete_Success = False, delete_Message = ''User not found''\<rparr>, None)"
  using redis_lock_no_user
    zero_rows_is_not_found [where u = ann_update and d = "\<lparr>delete_Id = 1\<rparr>",
      OF redis_lock_no_user _ _ refl refl]
  by (simp add: ann_update_def env_no_user_def steady_env_def no_row_def)

section \<open>The error of a failed acquisition\<close>

text \<open>
  Claim C8. Whatever made LockUser fail, GetUser, UpdateUser and DeleteUser return a
  nil response and one and the same kind of error: the cause wrapped under the text
  "failed to acquire lock: ".
\<close>

theorem lock_failure_wrapped:
  assumes "LockUser (locker s) E ctx uid h = (Inl cause, h1)"
    and "get_Id g = uid" and "update_Id u = uid" and "delete_Id d = uid"
    and "w = ErrorWrap ''failed to acquire lock: '' cause"
  shows "fst (GetUser s E ctx g h) = (None, Some w)
       \<and> fst (UpdateUser s E ctx u h) = (None, Some w)
       \<and> fst (DeleteUser s E ctx d h) = (None, Some w)
       \<and> Error_text w = ''failed to acquire lock: '' @ Error_text cause
       \<and> Unwrap w = Some cause"
  using assms by (simp add: GetUser_def UpdateUser_def DeleteUser_def)

theorem lock_failure_wrapped_witness:
  "LockUser (locker etcd_server) env_locks_down Background 1 [] =
     (Inl timed_out, [EtcdNewSession Background, EtcdLock 7 ''/user-lock-1'' Background (Some timed_out),
                      EtcdSessionClose 7])
   \<and> fst (GetUser etcd_server env_locks_down Background \<lparr>get_Id = 1\<rparr> []) =
       (None, Some (ErrorWrap ''failed to acquire lock: '' timed_out))
   \<and> fst (UpdateUser etcd_server env_locks_down Background ann_update []) =
       (None, Some (ErrorWrap ''failed to acquire lock: '' timed_out))
   \<and> fst (DeleteUser etcd_server env_locks_down Background \<lparr>delete_Id = 1\<rparr> []) =
       (None, Some (ErrorWrap ''failed to acquire lock: '' timed_out))
   \<and> Error_text (ErrorWrap ''failed to acquire lock: '' timed_out) =
       ''failed to acquire lock: context deadline exceeded''"
  using etcd_lock_down
    lock_failure_wrapped [where g = "\<lparr>get_Id = 1\<rparr>" and u = ann_update and d = "\<lparr>delete_Id = 1\<rparr>",
      OF etcd_lock_down _ _ _ refl]
  by (simp add: ann_update_def timed_out_def)

section \<open>The user returned by UpdateUser\<close>

lemma redis_lock_ann:
  "LockUser (locker redis_server) env_up Background (update_Id ann_update) [] =
     (Inr (\<lambda>h'. h' @ [RsUnlock ''user-lock-1'']), [RsLockContext Background ''user-lock-1'' None])"
  using redis_lock_up by (simp add: ann_update_def)

lemma redis_lock_ann_reread_fails:
  "LockUser (locker redis_server) env_reread_fails Background (update_Id ann_update) [] =
     (Inr (\<lambda>h'. h' @ [RsUnlock ''user-lock-1'']), [RsLockContext Background ''user-lock-1'' None])"
  using redis_lock_reread_fails by (simp add: ann_update_def)

text \<open>
  Claim C7. Under a granted lock, when the UPDATE statement has changed a row and the
  SELECT by identifier that follows it scans, UpdateUser returns success with the
  scanned row as the user of the response; so the user of every successful response is
  the row read back after the write. The SELECT is sent after the UPDATE and before the
  lock is released. When the UPDATE has changed a row and that SELECT fails, UpdateUser
  returns the error of the SELECT, although the UPDATE has run.
\<close>

theorem update_rereads_under_lock:
  assumes "LockUser (locker s) E ctx (update_Id u) h = (Inr unlock, h1)"
    and "args = [ArgString (update_Name u), ArgString (update_Email u), ArgInt32 (update_Age u),
                 ArgString (time_Now E (seen Clock h1)), ArgInt32 (update_Id u)]"
    and "row = db_QueryRowContext E (seen MySQL h1 @ [DbExec ctx update_user_sql args]) ctx
                 select_user_sql [ArgInt32 (update_Id u)]"
    and "done = h1 @ [TimeNow, DbExec ctx update_user_sql args,
                      DbQueryRow ctx select_user_sql [ArgInt32 (update_Id u)]]"
  shows "(\<forall>res num user.
              db_ExecContext E (seen MySQL h1) ctx update_user_sql args = Inr res \<and>
              RowsAffected res = Inr num \<and> num \<noteq> 0 \<and> row = Inr user \<longrightarrow>
              UpdateUser s E ctx u h =
                ((Some \<lparr>update_User = Some user, update_Success = True,
                         update_Message = ''User updated successfully''\<rparr>, None), unlock done))
       \<and> (\<forall>r. fst (UpdateUser s E ctx u h) = (Some r, None) \<and> update_Success r \<longrightarrow>
              (\<exists>user. row = Inr user \<and> update_User r = Some user) \<and>
              snd (UpdateUser s E ctx u h) = unlock done)
       \<and> (\<forall>res num err.
              db_ExecContext E (seen MySQL h1) ctx update_user_sql args = Inr res \<and>
              RowsAffected res = Inr num \<and> num \<noteq> 0 \<and> row = Inl err \<longrightarrow>
              UpdateUser s E ctx u h = ((None, Some err), unlock done))"
  using assms by (auto simp: UpdateUser_def call_defs split: sum.splits if_splits)

theorem update_rereads_under_lock_witness:
  "UpdateUser redis_server env_up Background ann_update [] =
       ((Some \<lparr>update_User = Some ann, update_Success = True,
                update_Message = ''User updated successfully''\<rparr>, None),
        [RsLockContext Background ''user-lock-1'' None, TimeNow,
         DbExec Background update_user_sql
           [ArgString ''Ann'', ArgString ''ann@example.com'', ArgInt32 31,
            ArgString ''2024-05-01T10:00:00Z'', ArgInt32 1],
         DbQueryRow Background select_user_sql [ArgInt32 1],
         RsUnlock ''user-lock-1''])
   \<and> UpdateUser redis_server env_reread_fails Background ann_update [] =
       ((None, Some (ErrorNew ''invalid connection'')),
        [RsLockContext Background ''user-lock-1'' None, TimeNow,
         DbExec Background update_user_sql
           [ArgString ''Ann'', ArgString ''ann@example.com'', ArgInt32 31,
            ArgString ''2024-05-01T10:00:00Z'', ArgInt32 1],
         DbQueryRow Background select_user_sql [ArgInt32 1],
         RsUnlock ''user-lock-1''])"
proof -
  note ok = update_rereads_under_lock [OF redis_lock_ann refl refl refl, THEN conjunct1,
    rule_format, of one_row 1 ann]
  have a: "UpdateUser redis_server env_up Background ann_update [] =
       ((Some \<lparr>update_User = Some ann, update_Success = True,
                update_Message = ''User updated successfully''\<rparr>, None),
        [RsLockContext Background ''user-lock-1'' None, TimeNow,
         DbExec Background update_user_sql
           [ArgString ''Ann'', ArgString ''ann@example.com'', ArgInt32 31,
            ArgString ''2024-05-01T10:00:00Z'', ArgInt32 1],
         DbQueryRow Background select_user_sql [ArgInt32 1],
         RsUnlock ''user-lock-1''])"
    using ok by (simp add: ann_update_def env_up_def steady_env_def one_row_def)
  note bad = update_rereads_under_lock [OF redis_lock_ann_reread_fails refl refl refl,
    THEN conjunct2, THEN conjunct2, rule_format, of one_row 1 "ErrorNew ''invalid connection''"]
  have b: "UpdateUser redis_server env_reread_fails Background ann_update [] =
       ((None, Some (ErrorNew ''invalid connection'')),
        [RsLockContext Background ''user-lock-1'' None, TimeNow,
         DbExec Background update_user_sql
           [ArgString ''Ann'', ArgString ''ann@example.com'', ArgInt32 31,
            ArgString ''2024-05-01T10:00:00Z'', ArgInt32 1],
         DbQueryRow Background select_user_sql [ArgInt32 1],
         RsUnlock ''user-lock-1''])"
    using bad by (simp add: ann_update_def env_reread_fails_def steady_env_def one_row_def)
  from a b show ?thesis by (rule conjI)
qed

section \<open>The session of the etcd driver\<close>

text \<open>
  Claim C5. In the etcd driver the session lives inside the acquisition and the release
  of the lock handle. Once the session is made, either the mutex is refused, and
  LockUser closes the session before it returns the error, or the mutex is granted, and
  the release that LockUser returns unlocks the mutex and then closes the session, in
  that order and nothing else.
\<close>

theorem etcd_session_nested:
  assumes "etcd_NewSession E (seen Etcd h) ctx = Inr sess"
    and "key = Sprintf_d ''/user-lock-'' uid"
    and "r = etcd_Lock E (seen Etcd h @ [EtcdNewSession ctx]) sess key ctx"
  shows "case r of
           Some err \<Rightarrow>
             EtcdLocker_LockUser l E ctx uid h =
               (Inl err, h @ [EtcdNewSession ctx, EtcdLock sess key ctx r, EtcdSessionClose sess])
         | None \<Rightarrow>
             (\<exists>unlock.
                EtcdLocker_LockUser l E ctx uid h =
                  (Inr unlock, h @ [EtcdNewSession ctx, EtcdLock sess key ctx r]) \<and>
                (\<forall>h'. unlock h' = h' @ [EtcdUnlock sess key ctx, EtcdSessionClose sess]))"
  using assms by (simp add: EtcdLocker_LockUser_def call_defs split: option.splits)

theorem etcd_session_nested_witness:
  "etcd_NewSession env_locks_down (seen Etcd []) Background = Inr 7
   \<and> EtcdLocker_LockUser etcd_locker env_locks_down Background 1 [] =
       (Inl timed_out,
        [EtcdNewSession Background, EtcdLock 7 ''/user-lock-1'' Background (Some timed_out),
         EtcdSessionClose 7])"
proof -
  have s: "etcd_NewSession env_locks_down (seen Etcd []) Background = Inr 7"
    by (simp add: env_locks_down_def steady_env_def)
  from etcd_session_nested [where uid = 1 and l = etcd_locker, OF s refl refl] s show ?thesis
    by (simp add: env_locks_down_def steady_env_def Sprintf_d_1)
qed

section \<open>Handlers without a lock\<close>

text \<open>
  Claim C6. CreateUser and ListUsers never call the locker: their result is the same
  with any locker in the server, and the lock services see no call. CreateUser reads
  the clock and runs a single INSERT; ListUsers runs a single query, and closes the
  cursor when it got one.
\<close>

theorem create_and_list_without_lock:
  "CreateUser (s\<lparr>locker := l\<rparr>) E ctx c h = CreateUser s E ctx c h
   \<and> snd (CreateUser s E ctx c h) =
       h @ [TimeNow,
            DbExec ctx insert_user_sql
              [ArgString (create_Name c), ArgString (create_Email c), ArgInt32 (create_Age c),
               ArgString (time_Now E (seen Clock h)), ArgString (time_Now E (seen Clock h))]]
   \<and> seen Redis (snd (CreateUser s E ctx c h)) = seen Redis h
   \<and> seen Etcd (snd (CreateUser s E ctx c h)) = seen Etcd h
   \<and> ListUsers (s\<lparr>locker := l\<rparr>) E ctx q h = ListUsers s E ctx q h
   \<and> snd (ListUsers s E ctx q h) =
       h @ DbQuery ctx list_users_sql [] #
         (case db_QueryContext E (seen MySQL h) ctx list_users_sql [] of
            Inl err \<Rightarrow> [] | Inr rows \<Rightarrow> [DbRowsClose])
   \<and> seen Redis (snd (ListUsers s E ctx q h)) = seen Redis h
   \<and> seen Etcd (snd (ListUsers s E ctx q h)) = seen Etcd h"
  by (simp add: CreateUser_def ListUsers_def call_defs split: sum.splits)

section \<open>Health checks\<close>

text \<open>
  Claim C9, as the code has it. With its client set, the Redis driver sends one Ping
  under the context of the caller as it is, and the etcd driver sends one Get of
  "healthcheck-key" under a timeout of two seconds that it adds itself; each returns
  the answer of that call. Without a client, each returns an error and calls nothing.
\<close>

theorem health_check_round_trip:
  "(rdb rl \<noteq> None \<longrightarrow>
      RedsyncLocker_HealthCheck (Some rl) E ctx h = (rdb_Ping E (seen Redis h) ctx, h @ [RdbPing ctx]))
   \<and> (client el \<noteq> None \<longrightarrow>
      EtcdLocker_HealthCheck (Some el) E ctx h =
        (etcd_Get E (seen Etcd h) (WithTimeout ctx (2 * Second)) ''healthcheck-key'',
         h @ [EtcdGet (WithTimeout ctx (2 * Second)) ''healthcheck-key''])
      \<and> (\<exists>t. timeout_of (WithTimeout ctx (2 * Second)) = Some t \<and> t \<le> 2 * Second))
   \<and> (rdb rl = None \<longrightarrow>
      RedsyncLocker_HealthCheck (Some rl) E ctx h = (Some (ErrorNew ''redis client not initialized''), h))
   \<and> RedsyncLocker_HealthCheck None E ctx h = (Some (ErrorNew ''redis client not initialized''), h)
   \<and> (client el = None \<longrightarrow>
      EtcdLocker_HealthCheck (Some el) E ctx h = (Some (ErrorNew ''etcd client not initialized''), h))
   \<and> EtcdLocker_HealthCheck None E ctx h = (Some (ErrorNew ''etcd client not initialized''), h)"
  by (auto simp: RedsyncLocker_HealthCheck_def EtcdLocker_HealthCheck_def call_defs
      split: option.splits)

theorem health_check_round_trip_witness:
  "rdb redis_locker \<noteq> None \<and> client etcd_locker \<noteq> None
   \<and> RedsyncLocker_HealthCheck (Some redis_locker) env_locks_down Background [] =
       (Some timed_out, [RdbPing Background])
   \<and> EtcdLocker_HealthCheck (Some etcd_locker) env_locks_down Background [] =
       (Some timed_out, [EtcdGet (WithTimeout Background 2000000000) ''healthcheck-key''])
   \<and> timeout_of (WithTimeout Background 2000000000) = Some 2000000000"
  using health_check_round_trip [of redis_locker env_locks_down Background "[]" etcd_locker]
  by (simp add: redis_locker_def etcd_locker_def env_locks_down_def steady_env_def Second_def)

text \<open>
  Claim C9 as stated fails for the Redis driver: called with a context that has no
  deadline, it pings under that context, so no timeout of its own bounds the call; and
  a locker without a client makes no call at all.
\<close>

theorem health_check_counterexample:
  "snd (RedsyncLocker_HealthCheck (Some redis_locker) env_up Background []) = [RdbPing Background]
   \<and> timeout_of Background = None
   \<and> snd (RedsyncLocker_HealthCheck (Some (redis_locker\<lparr>rdb := None\<rparr>)) env_up Background []) = []"
  by (simp add: RedsyncLocker_HealthCheck_def call_defs redis_locker_def)

section \<open>ListUsers\<close>

lemma ListUsers_scan_all: "ListUsers_scan (map Inr us) acc = Inr (acc @ us)"
  by (induction us arbitrary: acc) simp_all

lemma ListUsers_scan_Inr:
  "ListUsers_scan rows acc = Inr users \<Longrightarrow>
   rows = map Inr (drop (length acc) users) \<and> take (length acc) users = acc"
proof (induction rows arbitrary: acc)
  case Nil
  then show ?case by simp
next
  case (Cons r rows)
  show ?case
  proof (cases r)
    case (Inl err)
    with Cons.prems show ?thesis by simp
  next
    case (Inr user)
    with Cons.prems have "ListUsers_scan rows (acc @ [user]) = Inr users" by simp
    from Cons.IH [OF this]
    have rows: "rows = map Inr (drop (Suc (length acc)) users)"
      and pre: "take (Suc (length acc)) users = acc @ [user]" by simp_all
    from pre have len: "length acc < length users"
      by (metis length_append_singleton length_take lessI min_less_iff_conj)
    from pre len have "users ! length acc = user" and "take (length acc) users = acc"
      by (simp_all add: take_Suc_conv_app_nth)
    with rows len Inr show ?thesis
      by (simp add: Cons_nth_drop_Suc [symmetric])
  qed
qed

lemma sint_word_of_nat_32: "n < 2 ^ 31 \<Longrightarrow> sint (word_of_nat n :: 32 word) = int n"
proof -
  assume "n < 2 ^ 31"
  then have "int n < 2 ^ 31" by (metis of_nat_less_numeral_power_cancel_iff)
  moreover have "- (2 ^ 31) \<le> int n" by simp
  ultimately have "signed_take_bit 31 (int n) = int n"
    by (rule signed_take_bit_int_eq_self [rotated])
  then show ?thesis by (simp add: signed_of_nat)
qed

text \<open>
  ListUsers does not read Page and Limit: two requests give the same result and the
  same trace. Its query is the SELECT of all users, without arguments. When every
  delivered row scans, the response holds the rows the cursor delivered, in order,
  whatever error ended the iteration; and in every response, Total is the number of
  users in it, converted to int32.
\<close>

lemma ListUsers_delivered:
  "ListUsers s E ctx req h = ListUsers s E ctx req' h
   \<and> (\<exists>rest. snd (ListUsers s E ctx req h) = h @ DbQuery ctx list_users_sql [] # rest)
   \<and> (\<forall>rows us. db_QueryContext E (seen MySQL h) ctx list_users_sql [] = Inr rows \<and>
          rows_delivered rows = map Inr us \<longrightarrow>
          ListUsers s E ctx req h =
            ((Some \<lparr>list_Users = us, list_Total = word_of_nat (length us), list_Success = True,
                     list_Message = ''Users retrieved successfully''\<rparr>, None),
             h @ [DbQuery ctx list_users_sql [], DbRowsClose]))
   \<and> (\<forall>r e. fst (ListUsers s E ctx req h) = (Some r, e) \<longrightarrow>
          (\<exists>rows. db_QueryContext E (seen MySQL h) ctx list_users_sql [] = Inr rows \<and>
                  rows_delivered rows = map Inr (list_Users r)) \<and>
          list_Total r = word_of_nat (length (list_Users r)) \<and>
          (length (list_Users r) < 2 ^ 31 \<longrightarrow> sint (list_Total r) = int (length (list_Users r))))"
proof (intro conjI allI impI)
  show "ListUsers s E ctx req h = ListUsers s E ctx req' h"
    by (simp add: ListUsers_def)
next
  show "\<exists>rest. snd (ListUsers s E ctx req h) = h @ DbQuery ctx list_users_sql [] # rest"
    by (simp add: ListUsers_def call_defs split: sum.splits)
next
  fix rows us
  assume "db_QueryContext E (seen MySQL h) ctx list_users_sql [] = Inr rows \<and>
          rows_delivered rows = map Inr us"
  then show "ListUsers s E ctx req h =
            ((Some \<lparr>list_Users = us, list_Total = word_of_nat (length us), list_Success = True,
                     list_Message = ''Users retrieved successfully''\<rparr>, None),
             h @ [DbQuery ctx list_users_sql [], DbRowsClose])"
    by (simp add: ListUsers_def call_defs ListUsers_scan_all)
next
  fix r e
  assume a: "fst (ListUsers s E ctx req h) = (Some r, e)"
  then obtain rows users where
    q: "db_QueryContext E (seen MySQL h) ctx list_users_sql [] = Inr rows"
    and sc: "ListUsers_scan (rows_delivered rows) [] = Inr users"
    and r: "r = \<lparr>list_Users = users, list_Total = word_of_nat (length users), list_Success = True,
                     list_Message = ''Users retrieved successfully''\<rparr>"
    by (auto simp: ListUsers_def call_defs split: sum.splits)
  from ListUsers_scan_Inr [OF sc] have "rows_delivered rows = map Inr users" by simp
  with q r show "\<exists>rows. db_QueryContext E (seen MySQL h) ctx list_users_sql [] = Inr rows \<and>
                  rows_delivered rows = map Inr (list_Users r)"
    by simp
  from r show "list_Total r = word_of_nat (length (list_Users r))" by simp
  assume "length (list_Users r) < 2 ^ 31"
  with r show "sint (list_Total r) = int (length (list_Users r))"
    by (simp add: sint_word_of_nat_32)
qed

text \<open>
  Claim C10. The response of ListUsers should hold every user row. It does not when the
  cursor breaks midway: of a table with ann and bob the cursor delivers ann and stops
  on an error of the connection. The handler checks the error of the query and of each
  Scan, but does not ask rows.Err() after the loop, and answers success with ann alone
  and Total 1.
\<close>

theorem ListUsers_partial_cursor:
  "db_QueryContext env_cursor_cut (seen MySQL []) Background list_users_sql [] =
     Inr \<lparr>rows_delivered = [Inr ann], rows_Err = Some (ErrorNew ''invalid connection'')\<rparr>
   \<and> ListUsers redis_server env_cursor_cut Background \<lparr>list_Page = 1, list_Limit = 10\<rparr> [] =
       ((Some \<lparr>list_Users = [ann], list_Total = 1, list_Success = True,
                list_Message = ''Users retrieved successfully''\<rparr>, None),
        [DbQuery Background list_users_sql [], DbRowsClose])"
  by (simp add: ListUsers_def call_defs env_cursor_cut_def steady_env_def)

section \<open>The two drivers behind the same server\<close>









end
